theory Spec2Isabelle
  imports Main "HOL-Library.Sublist"
begin

section \<open>JavaScript values that reach the role guard\<close>

text \<open>
  A sender or thread identifier is whatever the caller hands over: a string (what the chat
  network delivers), a number, or nothing at all.  \<open>IdNum\<close> stands for a non-negative
  integer that JavaScript prints in plain decimal notation.
\<close>

datatype js_id = IdUndefined | IdNull | IdNum nat | IdStr string

datatype js_error = TypeError | Error string

fun digit_char :: "nat \<Rightarrow> char" where
  "digit_char n = char_of (48 + n)"

fun decimal :: "nat \<Rightarrow> string" where
  "decimal n = (if n < 10 then [digit_char n] else decimal (n div 10) @ [digit_char (n mod 10)])"

declare decimal.simps [simp del]

text \<open>\<^verbatim>\<open>x.toString()\<close>: a method call, so it throws on \<^verbatim>\<open>null\<close> and \<^verbatim>\<open>undefined\<close>.\<close>

fun js_toString :: "js_id \<Rightarrow> js_error + string" where
  "js_toString IdUndefined = Inl TypeError"
| "js_toString IdNull = Inl TypeError"
| "js_toString (IdNum n) = Inr (decimal n)"
| "js_toString (IdStr s) = Inr s"

text \<open>Interpolation into a template literal, \<^verbatim>\<open>`${x}`\<close>, never throws on these values.\<close>

fun js_String :: "js_id \<Rightarrow> string" where
  "js_String IdUndefined = ''undefined''"
| "js_String IdNull = ''null''"
| "js_String (IdNum n) = decimal n"
| "js_String (IdStr s) = s"

text \<open>Truthiness, as tested by \<^verbatim>\<open>!x\<close>.\<close>

fun truthy :: "js_id \<Rightarrow> bool" where
  "truthy IdUndefined = False"
| "truthy IdNull = False"
| "truthy (IdNum n) = (n \<noteq> 0)"
| "truthy (IdStr s) = (s \<noteq> [])"

section \<open>RoleGuard (src/secure/guard.js, verifyOwner)\<close>

text \<open>
  What \<^verbatim>\<open>JSON.parse(fs.readFileSync(ownerLockPath))\<close> yields: an exception (file missing,
  not JSON, or a parsed value without properties), or an object whose \<^verbatim>\<open>ownerHash\<close> is a
  string or is absent.
\<close>

datatype owner_lock = LockUnreadable | LockData "string option"

text \<open>
  The guard's surroundings: the SHA-256 hex digest of the crypto library (\<open>sha256\<close>), the
  content of owner.lock at the time of the call, and \<^verbatim>\<open>config.admins\<close> of config.json.
\<close>

record guard_env =
  sha256 :: "string \<Rightarrow> string"
  ownerLock :: owner_lock
  admins :: "string list"

definition hashUid :: "guard_env \<Rightarrow> js_id \<Rightarrow> js_error + string" where
  "hashUid g uid = (case js_toString uid of Inl e \<Rightarrow> Inl e | Inr s \<Rightarrow> Inr (sha256 g s))"

text \<open>The body of the \<^verbatim>\<open>try\<close> block of verifyOwner: the record is read first, then the id hashed.\<close>

definition verifyOwner_try :: "guard_env \<Rightarrow> js_id \<Rightarrow> js_error + bool" where
  "verifyOwner_try g userId =
     (case ownerLock g of
        LockUnreadable \<Rightarrow> Inl (Error ''owner.lock'')
      | LockData ownerHash \<Rightarrow>
          (case hashUid g userId of
             Inl e \<Rightarrow> Inl e
           | Inr hashedInput \<Rightarrow> Inr (ownerHash = Some hashedInput)))"

text \<open>The \<^verbatim>\<open>catch\<close> block logs and returns false.\<close>

definition verifyOwner :: "guard_env \<Rightarrow> js_id \<Rightarrow> js_error + bool" where
  "verifyOwner g userId =
     (case verifyOwner_try g userId of Inl e \<Rightarrow> Inr False | Inr b \<Rightarrow> Inr b)"

definition isOwner :: "guard_env \<Rightarrow> js_id \<Rightarrow> js_error + bool" where
  "isOwner g userId = verifyOwner g userId"

definition isAdmin :: "guard_env \<Rightarrow> js_id \<Rightarrow> js_error + bool" where
  "isAdmin g userId =
     (case js_toString userId of Inl e \<Rightarrow> Inl e | Inr s \<Rightarrow> Inr (List.member (admins g) s))"

section \<open>RateLimiter (src/utils/rateLimiter.js)\<close>


text \<open>
  The limiter owns one table, \<^verbatim>\<open>this.limits = new Map()\<close>, from a key to the list of
  the times (milliseconds, \<^verbatim>\<open>Date.now()\<close>) of the admitted attempts.  The clock is
  passed in as \<open>now\<close>; the logger call of the rejecting branch has no effect on the table.
\<close>

type_synonym limits = "string \<rightharpoonup> int list"

definition check :: "limits \<Rightarrow> string \<Rightarrow> int \<Rightarrow> int \<Rightarrow> int \<Rightarrow> bool \<times> limits" where
  "check lims key limit windowMs now =
     (let userLimits = (case lims key of None \<Rightarrow> [] | Some ts \<Rightarrow> ts);
          validLimits = filter (\<lambda>time. now - time < windowMs) userLimits
      in if int (length validLimits) \<ge> limit then (False, lims)
         else (True, lims(key \<mapsto> validLimits @ [now])))"

text \<open>A run of calls on one key, one call per clock reading, collecting the answers.\<close>

fun check_seq :: "limits \<Rightarrow> string \<Rightarrow> int \<Rightarrow> int \<Rightarrow> int list \<Rightarrow> bool list \<times> limits" where
  "check_seq lims key limit windowMs [] = ([], lims)"
| "check_seq lims key limit windowMs (now # nows) =
     (let (ok, lims') = check lims key limit windowMs now;
          (oks, lims'') = check_seq lims' key limit windowMs nows
      in (ok # oks, lims''))"

text \<open>The four quotas, each on its own key.\<close>

definition checkUserCommand :: "limits \<Rightarrow> js_id \<Rightarrow> int \<Rightarrow> bool \<times> limits" where
  "checkUserCommand lims userId now = check lims (''user:cmd:'' @ js_String userId) 30 60000 now"

definition checkThreadMessage :: "limits \<Rightarrow> js_id \<Rightarrow> int \<Rightarrow> bool \<times> limits" where
  "checkThreadMessage lims threadId now = check lims (''thread:msg:'' @ js_String threadId) 50 60000 now"

definition checkFunCommand :: "limits \<Rightarrow> js_id \<Rightarrow> string \<Rightarrow> int \<Rightarrow> bool \<times> limits" where
  "checkFunCommand lims userId funType now =
     check lims (''user:fun:'' @ js_String userId @ '':'' @ funType) 5 60000 now"

definition checkAdminAction :: "limits \<Rightarrow> js_id \<Rightarrow> int \<Rightarrow> bool \<times> limits" where
  "checkAdminAction lims userId now = check lims (''user:admin:'' @ js_String userId) 20 60000 now"

section \<open>Validator.isValidCommandInput\<close>

text \<open>
  The patterns are regular expressions without metacharacters (the escaped \<^verbatim>\<open>\(\<close> and
  \<^verbatim>\<open>\.\<close> are literal), each with the flag \<^verbatim>\<open>i\<close>: a pattern matches when it occurs in
  the input as a substring, letters \<^verbatim>\<open>A-Z\<close> and \<^verbatim>\<open>a-z\<close> identified.
\<close>

text \<open>
  A string is the sequence of the bytes of its UTF-8 form.  \<^verbatim>\<open>input.length\<close> counts
  UTF-16 code units: one for every character of one, two or three bytes, two for every
  character of four bytes.  Continuation bytes (128 to 191) start no character.
\<close>

definition js_length :: "string \<Rightarrow> nat" where
  "js_length s =
     length (filter (\<lambda>c. (of_char c :: nat) < 128 \<or> 192 \<le> (of_char c :: nat)) s)
     + length (filter (\<lambda>c. 240 \<le> (of_char c :: nat)) s)"

definition lower :: "char \<Rightarrow> char" where
  "lower c = (let n = (of_char c :: nat) in if 65 \<le> n \<and> n \<le> 90 then char_of (n + 32) else c)"

definition maliciousPatterns :: "string list" where
  "maliciousPatterns =
     [''<script>'', ''javascript:'', ''onload='', ''onerror='', ''eval('', ''document.'',
      ''window.'', ''localStorage.'', ''process.'', ''require('', ''fs.'', ''child_process'']"

definition pattern_test :: "string \<Rightarrow> string \<Rightarrow> bool" where
  "pattern_test pattern input = sublist (map lower pattern) (map lower input)"

text \<open>
  The input is a string here, so the \<^verbatim>\<open>typeof\<close> test passes; \<^verbatim>\<open>!input\<close> rejects the
  empty string, whatever \<open>minLength\<close> is.
\<close>

definition isValidCommandInput :: "string \<Rightarrow> nat \<Rightarrow> nat \<Rightarrow> bool" where
  "isValidCommandInput input minLength maxLength =
     (if input = [] then False
      else if js_length input < minLength \<or> js_length input > maxLength then False
      else \<not> list_ex (\<lambda>pattern. pattern_test pattern input) maliciousPatterns)"

section \<open>CommandProcessor (src/middleware/commandProcessor.js)\<close>

text \<open>
  The user-facing replies.  The leading pictographs are kept as their UTF-8 bytes:
  the cross mark U+274C and the warning sign U+26A0 U+FE0F.
\<close>

definition cross_mark :: string where
  "cross_mark = [CHR 0xE2, CHR 0x9D, CHR 0x8C]"

definition warning_sign :: string where
  "warning_sign = [CHR 0xE2, CHR 0x9A, CHR 0xA0, CHR 0xEF, CHR 0xB8, CHR 0x8F]"

definition msg_invalid_name :: string where
  "msg_invalid_name = cross_mark @ '' Invalid command name''"

definition msg_invalid_args :: string where
  "msg_invalid_args = cross_mark @ '' Invalid command arguments''"

definition msg_invalid_context :: string where
  "msg_invalid_context = cross_mark @ '' Invalid message context''"

definition msg_rate_user :: string where
  "msg_rate_user = warning_sign @ '' Rate limit exceeded. Please wait a moment.''"

definition msg_rate_thread :: string where
  "msg_rate_thread = warning_sign @ '' Too many messages in this thread. Please slow down.''"

definition msg_rate_fun :: string where
  "msg_rate_fun = warning_sign @ '' Too many fun commands. Please wait before starting another.''"

definition msg_rate_admin :: string where
  "msg_rate_admin = warning_sign @ '' Admin action rate limit exceeded.''"

definition msg_owner_required :: string where
  "msg_owner_required = cross_mark @ '' Owner access required for this command.''"

definition msg_admin_required :: string where
  "msg_admin_required = cross_mark @ '' Admin access required for this command.''"

definition msg_fun_required :: string where
  "msg_fun_required = cross_mark @ '' Admin/Owner access required for fun commands.''"

definition msg_unknown_category :: string where
  "msg_unknown_category = cross_mark @ '' Unknown command category.''"

definition msg_not_found :: "string \<Rightarrow> string" where
  "msg_not_found cmd =
     cross_mark @ '' Command '' @ [CHR 0x22] @ cmd @ [CHR 0x22] @
     '' not found. Use !help for available commands.''"

definition msg_error :: string where
  "msg_error = cross_mark @ '' An error occurred while processing your command.''"

text \<open>The execution context of one invocation (the object \<^verbatim>\<open>context\<close> of \<^verbatim>\<open>process\<close>).\<close>

record ctx =
  command :: string
  args :: "string list"
  userId :: js_id
  threadId :: js_id
  shouldContinue :: bool
  response :: "string option"
  err :: "js_error option"
  cached :: bool

text \<open>
  The singletons the middlewares write to: the rate limiter's table, the audit log with
  the statistics counters, and the result cache (value and expiry time per key).
\<close>

record world =
  limiter :: limits
  audit :: "(js_id \<times> js_id \<times> string \<times> string) list"
  funUsage :: "(string \<times> js_id) list"
  cacheStore :: "string \<rightharpoonup> (string \<times> int)"

text \<open>
  What the processor takes from outside this file: the role guard's surroundings; the
  handler modules that \<^verbatim>\<open>require\<close> finds under commands/ (a handler returns a value,
  \<open>None\<close> for \<^verbatim>\<open>undefined\<close>, or throws); \<^verbatim>\<open>JSON.stringify\<close>; and whether the logger or
  the statistics file fails in the Log stage; and the engine's wording of a TypeError.
\<close>

record proc_env =
  guard :: guard_env
  handlers :: "string \<rightharpoonup> (js_id \<Rightarrow> js_id \<Rightarrow> string list \<Rightarrow> js_error + string option)"
  stringify :: "string list \<Rightarrow> string"
  sinkFailure :: "js_error option"
  typeErrorText :: string

type_synonym stage = "proc_env \<Rightarrow> int \<Rightarrow> world \<times> ctx \<Rightarrow> js_error option \<times> world \<times> ctx"

definition reject :: "ctx \<Rightarrow> string \<Rightarrow> ctx" where
  "reject c msg = c\<lparr>shouldContinue := False, response := Some msg\<rparr>"

text \<open>Middleware 1.\<close>

definition validateInput :: stage where
  "validateInput env now wc =
     (case wc of (w, c) \<Rightarrow>
        if \<not> isValidCommandInput (command c) 1 50 then (None, w, reject c msg_invalid_name)
        else if list_ex (\<lambda>arg. \<not> isValidCommandInput arg 0 500) (args c)
          then (None, w, reject c msg_invalid_args)
        else if \<not> truthy (threadId c) \<or> \<not> truthy (userId c)
          then (None, w, reject c msg_invalid_context)
        else (None, w, c))"

text \<open>\<^verbatim>\<open>context.args[0]\<close> interpolated into the key: \<^verbatim>\<open>undefined\<close> when there is no argument.\<close>

definition arg0_String :: "string list \<Rightarrow> string" where
  "arg0_String as = (case as of [] \<Rightarrow> ''undefined'' | a # _ \<Rightarrow> a)"

text \<open>Middleware 2.  Each quota that is consulted records the attempt when it admits it.\<close>

definition checkRateLimit :: stage where
  "checkRateLimit env now wc =
     (case wc of (w, c) \<Rightarrow>
        let (ok1, l1) = checkUserCommand (limiter w) (userId c) now in
        if \<not> ok1 then (None, w\<lparr>limiter := l1\<rparr>, reject c msg_rate_user)
        else
        let (ok2, l2) = checkThreadMessage l1 (threadId c) now in
        if \<not> ok2 then (None, w\<lparr>limiter := l2\<rparr>, reject c msg_rate_thread)
        else
        let (ok3, l3) = (if prefix ''startfun'' (command c)
                         then checkFunCommand l2 (userId c) (arg0_String (args c)) now
                         else (True, l2)) in
        if \<not> ok3 then (None, w\<lparr>limiter := l3\<rparr>, reject c msg_rate_fun)
        else
        (case isAdmin (guard env) (userId c) of
           Inl e \<Rightarrow> (Some e, w\<lparr>limiter := l3\<rparr>, c)
         | Inr False \<Rightarrow> (None, w\<lparr>limiter := l3\<rparr>, c)
         | Inr True \<Rightarrow>
             (case isOwner (guard env) (userId c) of
                Inl e \<Rightarrow> (Some e, w\<lparr>limiter := l3\<rparr>, c)
              | Inr True \<Rightarrow> (None, w\<lparr>limiter := l3\<rparr>, c)
              | Inr False \<Rightarrow>
                  let (ok4, l4) = checkAdminAction l3 (userId c) now in
                  if \<not> ok4 then (None, w\<lparr>limiter := l4\<rparr>, reject c msg_rate_admin)
                  else (None, w\<lparr>limiter := l4\<rparr>, c))))"

definition getCommandCategory :: "string \<Rightarrow> string" where
  "getCommandCategory cmd =
     (let ownerCommands = [''emergencystop'', ''shutdown'', ''addadmin'', ''removeadmin'',
                           ''diagnostics'', ''reloadconfig'', ''execute'', ''backup'', ''cleanup''];
          adminCommands = [''startfun'', ''stopfun'', ''managegroups'', ''editadminphoto'', ''updatefun''];
          funCommands = [''startfun'', ''stopfun''];
          userCommands = [''help'', ''info'', ''stats'']
      in if List.member ownerCommands cmd then ''owner''
         else if List.member adminCommands cmd then ''admin''
         else if List.member funCommands cmd then ''fun''
         else if List.member userCommands cmd then ''user''
         else ''unknown'')"

text \<open>\<^verbatim>\<open>!guard.isAdmin(userId) && !guard.isOwner(userId)\<close>, with its short circuit.\<close>

definition neither_admin_nor_owner :: "guard_env \<Rightarrow> js_id \<Rightarrow> js_error + bool" where
  "neither_admin_nor_owner g uid =
     (case isAdmin g uid of
        Inl e \<Rightarrow> Inl e
      | Inr True \<Rightarrow> Inr False
      | Inr False \<Rightarrow> (case isOwner g uid of Inl e \<Rightarrow> Inl e | Inr b \<Rightarrow> Inr (\<not> b)))"

text \<open>Middleware 3.\<close>

definition checkPermissions :: stage where
  "checkPermissions env now wc =
     (case wc of (w, c) \<Rightarrow>
        let commandCategory = getCommandCategory (command c) in
        if commandCategory = ''owner'' then
          (case isOwner (guard env) (userId c) of
             Inl e \<Rightarrow> (Some e, w, c)
           | Inr False \<Rightarrow> (None, w, reject c msg_owner_required)
           | Inr True \<Rightarrow> (None, w, c))
        else if commandCategory = ''admin'' then
          (case neither_admin_nor_owner (guard env) (userId c) of
             Inl e \<Rightarrow> (Some e, w, c)
           | Inr True \<Rightarrow> (None, w, reject c msg_admin_required)
           | Inr False \<Rightarrow> (None, w, c))
        else if commandCategory = ''fun'' then
          (case neither_admin_nor_owner (guard env) (userId c) of
             Inl e \<Rightarrow> (Some e, w, c)
           | Inr True \<Rightarrow> (None, w, reject c msg_fun_required)
           | Inr False \<Rightarrow> (None, w, c))
        else if commandCategory = ''user'' then (None, w, c)
        else (None, w, reject c msg_unknown_category))"

fun join_space :: "string list \<Rightarrow> string" where
  "join_space [] = []"
| "join_space [a] = a"
| "join_space (a # b # bs) = a @ '' '' @ join_space (b # bs)"

text \<open>
  Middleware 4.  The logger writes the entry first; the statistics module then rewrites
  its file, which is where a failure of the sinks surfaces as an exception.
\<close>

definition logCommand :: stage where
  "logCommand env now wc =
     (case wc of (w, c) \<Rightarrow>
        let w1 = w\<lparr>audit := audit w @ [(userId c, threadId c, command c, join_space (args c))]\<rparr> in
        (case sinkFailure env of
           Some e \<Rightarrow> (Some e, w1, c)
         | None \<Rightarrow>
             if sublist ''fun'' (command c) \<and> (case args c of [] \<Rightarrow> False | a # _ \<Rightarrow> a \<noteq> [])
             then (None, w1\<lparr>funUsage := funUsage w1 @ [(hd (args c), userId c)]\<rparr>, c)
             else (None, w1, c)))"

definition shouldCacheCommand :: "string \<Rightarrow> bool" where
  "shouldCacheCommand cmd = List.member [''help'', ''info'', ''stats''] cmd"

definition shouldSkipCache :: "string \<Rightarrow> bool" where
  "shouldSkipCache cmd = List.member [''startfun'', ''stopfun'', ''execute'', ''emergencystop''] cmd"

text \<open>
  The logger (src/utils/logger.js) defines \<^verbatim>\<open>log\<close>, \<^verbatim>\<open>info\<close>, \<^verbatim>\<open>error\<close>, \<^verbatim>\<open>warn\<close> and
  \<^verbatim>\<open>command\<close>, and no \<^verbatim>\<open>debug\<close>: a call of \<^verbatim>\<open>logger.debug\<close> throws a TypeError.
\<close>

definition logger_debug :: "js_error + unit" where
  "logger_debug = Inl TypeError"

text \<open>
  \<^verbatim>\<open>cache.get\<close>: the value is looked up (it is served until its expiry), then the hit or
  the miss is reported with \<^verbatim>\<open>logger.debug\<close> inside the \<^verbatim>\<open>try\<close>, whose \<^verbatim>\<open>catch\<close> returns
  \<^verbatim>\<open>undefined\<close>.
\<close>

definition cache_get :: "(string \<rightharpoonup> (string \<times> int)) \<Rightarrow> string \<Rightarrow> int \<Rightarrow> string option" where
  "cache_get store key now =
     (let value = (case store key of
                     None \<Rightarrow> None
                   | Some (v, expiry) \<Rightarrow> if now < expiry then Some v else None)
      in case logger_debug of Inl e \<Rightarrow> None | Inr u \<Rightarrow> value)"

definition cacheKey :: "proc_env \<Rightarrow> ctx \<Rightarrow> string" where
  "cacheKey env c =
     ''cmd_result:'' @ command c @ '':'' @ stringify env (args c) @ '':'' @ js_String (userId c)"

text \<open>
  Middleware 5.  A value is truthy when it is a non-empty string.  After the handler has
  returned, the result is cached and stored in the context, and then the success is
  reported with \<^verbatim>\<open>logger.debug\<close>, still inside the \<^verbatim>\<open>try\<close>.
\<close>

definition executeCommand :: stage where
  "executeCommand env now wc =
     (case wc of (w, c) \<Rightarrow>
        (case handlers env (command c) of
           None \<Rightarrow> (None, w, reject c (msg_not_found (command c)))
         | Some handler \<Rightarrow>
             let key = cacheKey env c;
                 cachedResult = cache_get (cacheStore w) key now in
             if (case cachedResult of None \<Rightarrow> False | Some v \<Rightarrow> v \<noteq> []) \<and> \<not> shouldSkipCache (command c)
             then (None, w, c\<lparr>response := cachedResult, cached := True\<rparr>)
             else
               (case handler (userId c) (threadId c) (args c) of
                  Inl e \<Rightarrow> (Some e, w, c\<lparr>err := Some e, shouldContinue := False\<rparr>)
                | Inr result \<Rightarrow>
                    let w1 = (case result of
                                Some v \<Rightarrow> if v \<noteq> [] \<and> shouldCacheCommand (command c)
                                          then w\<lparr>cacheStore := (cacheStore w)(key \<mapsto> (v, now + 60000))\<rparr>
                                          else w
                              | None \<Rightarrow> w);
                        c1 = c\<lparr>response := result\<rparr>
                    in (case logger_debug of
                          Inl e \<Rightarrow> (Some e, w1, c1\<lparr>err := Some e, shouldContinue := False\<rparr>)
                        | Inr u \<Rightarrow> (None, w1, c1)))))"

text \<open>
  The loop of \<^verbatim>\<open>process\<close>: the flag is tested before every middleware, and an exception
  leaves the loop at once.
\<close>

fun run_chain :: "stage list \<Rightarrow> proc_env \<Rightarrow> int \<Rightarrow> world \<times> ctx \<Rightarrow> js_error option \<times> world \<times> ctx" where
  "run_chain [] env now (w, c) = (None, w, c)"
| "run_chain (m # ms) env now (w, c) =
     (if \<not> shouldContinue c then (None, w, c)
      else (case m env now (w, c) of
              (Some e, w', c') \<Rightarrow> (Some e, w', c')
            | (None, w', c') \<Rightarrow> run_chain ms env now (w', c')))"

definition middlewares :: "stage list" where
  "middlewares = [validateInput, checkRateLimit, checkPermissions, logCommand, executeCommand]"

text \<open>
  \<^verbatim>\<open>error.message\<close>: the text an \<^verbatim>\<open>Error\<close> was thrown with, or the engine's wording of
  the TypeError at hand, which is given from outside.
\<close>

definition error_message :: "string \<Rightarrow> js_error \<Rightarrow> string" where
  "error_message wording e = (case e of TypeError \<Rightarrow> wording | Error m \<Rightarrow> m)"

text \<open>\<^verbatim>\<open>handleError\<close> asks the guard again, so it can itself throw.\<close>

definition handleError :: "proc_env \<Rightarrow> ctx \<Rightarrow> js_error \<Rightarrow> js_error + string" where
  "handleError env c e =
     (let debug = msg_error @ [CHR 0x0A, CHR 0x0A] @ ''Debug: '' @ error_message (typeErrorText env) e in
      case isAdmin (guard env) (userId c) of
        Inl e' \<Rightarrow> Inl e'
      | Inr True \<Rightarrow> Inr debug
      | Inr False \<Rightarrow>
          (case isOwner (guard env) (userId c) of
             Inl e' \<Rightarrow> Inl e'
           | Inr True \<Rightarrow> Inr debug
           | Inr False \<Rightarrow> Inr msg_error))"

definition initial_ctx :: "js_id \<Rightarrow> js_id \<Rightarrow> string \<Rightarrow> string list \<Rightarrow> ctx" where
  "initial_ctx senderID threadID cmd as =
     \<lparr>command = cmd, args = as, userId = senderID, threadId = threadID,
      shouldContinue = True, response = None, err = None, cached = False\<rparr>"

text \<open>
  \<^verbatim>\<open>process(api, event, command, args)\<close>, with the event given by its sender and thread
  and the clock read once for the invocation.  The result is the reply (\<open>None\<close> for
  \<^verbatim>\<open>null\<close>) or the exception that escapes, together with the singletons as they are left.
\<close>

definition process :: "proc_env \<Rightarrow> int \<Rightarrow> world \<Rightarrow> js_id \<Rightarrow> js_id \<Rightarrow> string \<Rightarrow> string list
                        \<Rightarrow> (js_error + string option) \<times> world" where
  "process env now w senderID threadID cmd as =
     (case run_chain middlewares env now (w, initial_ctx senderID threadID cmd as) of
        (None, w', c') \<Rightarrow> (Inr (response c'), w')
      | (Some e, w', c') \<Rightarrow>
          (case handleError env (c'\<lparr>err := Some e\<rparr>) e of
             Inl e' \<Rightarrow> (Inl e', w')
           | Inr m \<Rightarrow> (Inr (Some m), w')))"

section \<open>The chat transport\<close>

text \<open>
  What the bot hands to \<^verbatim>\<open>api.sendMessage\<close> and \<^verbatim>\<open>api.sendTypingIndicator\<close>.  Template
  lines are strings; the fixed notices, whose texts are pictographs and Bengali, are
  named: \<open>FunSendError\<close> is FunEngine's "Error sending fun message. Fun stopped.",
  \<open>AutoStopped n\<close> is the module's "n fun auto-stopped after 5 minutes!", \<open>Decorated k m\<close>
  is the line \<open>m\<close> between the pictographs of the module's k-th decoration, \<open>Shouted m\<close> is
  \<^verbatim>\<open>m.toUpperCase() + "!!!"\<close>, and \<open>NoLine\<close> is the value \<^verbatim>\<open>undefined\<close> handed over as
  the message.
\<close>

datatype chat_msg =
    Line string
  | NoLine
  | Decorated nat string
  | Shouted string
  | Typing
  | FunSendError
  | DataFileMissing string
  | FunStarting string
  | StatusUpdate string nat
  | AutoStopped string
  | Usage
  | AlreadyActive string
  | InvalidType string
  | FileNotFound string
  | EmptyOrInvalid string
  | StartingInfo string nat
  | NowRunning string
  | StartFailed string string

text \<open>
  The transport is fallible: \<open>up n\<close> says whether the call number \<open>n\<close> succeeds.  Every
  call is recorded with its conversation and its outcome.
\<close>

record transport =
  up :: "nat \<Rightarrow> bool"
  calls :: "(chat_msg \<times> string \<times> bool) list"

definition api_send :: "chat_msg \<Rightarrow> string \<Rightarrow> transport \<Rightarrow> bool \<times> transport" where
  "api_send m thread tr =
     (let ok = up tr (length (calls tr)) in (ok, tr\<lparr>calls := calls tr @ [(m, thread, ok)]\<rparr>))"

section \<open>FunEngine (class FunEngine, required as utils/funEngine, listed with src/utils/delay.js)\<close>

text \<open>
  A template set is the list of strings parsed from its file.  The sets are kept as the
  properties of a plain object, so \<^verbatim>\<open>this.funTemplates[funType]\<close> also finds what every
  object inherits: for a name that is no own property, the members of
  \<^verbatim>\<open>Object.prototype\<close>, which are functions (their \<^verbatim>\<open>length\<close> is their number of
  parameters) and, under \<^verbatim>\<open>__proto__\<close>, the prototype itself, which has no \<^verbatim>\<open>length\<close>.
  None of them has indexed elements.
\<close>

datatype template = Lines "string list" | Inherited "nat option"

definition object_prototype :: "string \<rightharpoonup> nat option" where
  "object_prototype =
     [''constructor'' \<mapsto> Some 1, ''__defineGetter__'' \<mapsto> Some 2, ''__defineSetter__'' \<mapsto> Some 2,
      ''hasOwnProperty'' \<mapsto> Some 1, ''__lookupGetter__'' \<mapsto> Some 1, ''__lookupSetter__'' \<mapsto> Some 1,
      ''isPrototypeOf'' \<mapsto> Some 1, ''propertyIsEnumerable'' \<mapsto> Some 1, ''toString'' \<mapsto> Some 0,
      ''valueOf'' \<mapsto> Some 0, ''toLocaleString'' \<mapsto> Some 0, ''__proto__'' \<mapsto> None]"

text \<open>\<^verbatim>\<open>lines.length\<close>, \<open>None\<close> for \<^verbatim>\<open>undefined\<close>, and \<^verbatim>\<open>lines[i]\<close>.\<close>

definition template_length :: "template \<Rightarrow> nat option" where
  "template_length t = (case t of Lines ls \<Rightarrow> Some (length ls) | Inherited n \<Rightarrow> n)"

definition template_at :: "template \<Rightarrow> nat \<Rightarrow> string option" where
  "template_at t i = (case t of Lines ls \<Rightarrow> if i < length ls then Some (ls ! i) else None
                              | Inherited n \<Rightarrow> None)"

text \<open>
  A loop state holds the fields the source stores; \<open>fs_index\<close> and \<open>fs_messageCount\<close> are
  written once, when the state is created, and the cursor that advances is the
  callback's own variable.
\<close>

record fun_state =
  fs_type :: string
  fs_interval :: nat
  fs_index :: nat
  fs_lines :: template
  fs_userId :: js_id
  fs_startTime :: int
  fs_messageCount :: nat

text \<open>The variables captured by the interval callback that \<^verbatim>\<open>startFun\<close> creates.\<close>

record tick_closure =
  tc_threadId :: string
  tc_funType :: string
  tc_userId :: js_id
  tc_lines :: template
  currentIndex :: nat

text \<open>
  The engine with the part of the runtime it drives: \<open>timers\<close> are the interval timers that
  have been set and not cleared, by handle; a cleared timer never fires again.
\<close>

record engine =
  activeFuns :: "string \<rightharpoonup> fun_state"
  funTemplates :: "string \<rightharpoonup> string list"
  timers :: "nat \<rightharpoonup> tick_closure"
  nextTimer :: nat
  api :: transport
  recorded :: "(string \<times> js_id) list"

text \<open>
  The results \<^verbatim>\<open>{success: false, error}\<close> and \<^verbatim>\<open>{success: true, message}\<close> of
  \<^verbatim>\<open>startFun\<close>, and those of \<^verbatim>\<open>stopFun\<close>, whose message on success is a rendering of
  the statistics it returns beside it.  The check mark U+2705 is kept as its UTF-8 bytes.
\<close>

datatype start_result = StartFailure string | StartSuccess string

definition check_mark :: string where
  "check_mark = [CHR 0xE2, CHR 0x9C, CHR 0x85]"

record stop_stats =
  st_type :: string
  st_duration :: int
  st_messagesSent :: nat
  st_userId :: js_id

datatype stop_result = StopFailure string | StopSuccess stop_stats

definition lookup_template :: "engine \<Rightarrow> string \<Rightarrow> template option" where
  "lookup_template e funType =
     (case funTemplates e funType of
        Some ls \<Rightarrow> Some (Lines ls)
      | None \<Rightarrow> map_option Inherited (object_prototype funType))"

definition startFun :: "engine \<Rightarrow> string \<Rightarrow> string \<Rightarrow> js_id \<Rightarrow> int \<Rightarrow> start_result \<times> engine" where
  "startFun e thread funType uid now =
     (if activeFuns e thread \<noteq> None
        then (StartFailure ''Fun already running in this thread'', e)
      else (case lookup_template e funType of
              None \<Rightarrow> (StartFailure (''Unknown fun type: '' @ funType), e)
            | Some lines \<Rightarrow>
                if template_length lines = Some 0
                  then (StartFailure ''No lines available for this fun type'', e)
                else
                  let interval = nextTimer e;
                      closure = \<lparr>tc_threadId = thread, tc_funType = funType, tc_userId = uid,
                                 tc_lines = lines, currentIndex = 0\<rparr>
                  in (StartSuccess (check_mark @ '' '' @ funType @ '' fun started!''),
                      e\<lparr>timers := (timers e)(interval \<mapsto> closure),
                        nextTimer := Suc interval,
                        activeFuns := (activeFuns e)(thread \<mapsto>
                          \<lparr>fs_type = funType, fs_interval = interval, fs_index = 0, fs_lines = lines,
                           fs_userId = uid, fs_startTime = now, fs_messageCount = 0\<rparr>)\<rparr>)))"

text \<open>\<^verbatim>\<open>Math.round(duration / 1000)\<close> on an integer number of milliseconds.\<close>

definition round_seconds :: "int \<Rightarrow> int" where
  "round_seconds duration = (duration + 500) div 1000"

definition stopFun :: "engine \<Rightarrow> string \<Rightarrow> int \<Rightarrow> stop_result \<times> engine" where
  "stopFun e thread now =
     (case activeFuns e thread of
        None \<Rightarrow> (StopFailure ''No active fun in this thread'', e)
      | Some f \<Rightarrow>
          let duration = now - fs_startTime f;
              stats = \<lparr>st_type = fs_type f, st_duration = round_seconds duration,
                       st_messagesSent = fs_messageCount f, st_userId = fs_userId f\<rparr>
          in (StopSuccess stats,
              e\<lparr>timers := (timers e)(fs_interval f := None),
                activeFuns := (activeFuns e)(thread := None)\<rparr>))"

text \<open>The \<^verbatim>\<open>catch\<close> block of the interval callback.\<close>

definition tick_failed :: "engine \<Rightarrow> string \<Rightarrow> int \<Rightarrow> engine" where
  "tick_failed e thread now =
     (let e1 = snd (stopFun e thread now)
      in e1\<lparr>api := snd (api_send FunSendError thread (api e1))\<rparr>)"

text \<open>
  One firing of the interval timer \<open>h\<close>, run to its end.  \<open>statsOk\<close> says whether
  \<^verbatim>\<open>stats.recordFunUsage\<close> succeeds in rewriting its file.
\<close>

definition tick :: "engine \<Rightarrow> nat \<Rightarrow> bool \<Rightarrow> int \<Rightarrow> engine" where
  "tick e h statsOk now =
     (case timers e h of
        None \<Rightarrow> e
      | Some cl \<Rightarrow>
          let i = (case template_length (tc_lines cl) of
                     Some n \<Rightarrow> if currentIndex cl \<ge> n then 0 else currentIndex cl
                   | None \<Rightarrow> currentIndex cl);
              line = (case template_at (tc_lines cl) i of Some l \<Rightarrow> Line l | None \<Rightarrow> NoLine);
              e1 = e\<lparr>timers := (timers e)(h \<mapsto> cl\<lparr>currentIndex := Suc i\<rparr>)\<rparr>;
              (ok1, a1) = api_send Typing (tc_threadId cl) (api e1)
          in if \<not> ok1 then tick_failed (e1\<lparr>api := a1\<rparr>) (tc_threadId cl) now
             else
               let (ok2, a2) = api_send line (tc_threadId cl) a1
               in if \<not> ok2 then tick_failed (e1\<lparr>api := a2\<rparr>) (tc_threadId cl) now
                  else if \<not> statsOk then tick_failed (e1\<lparr>api := a2\<rparr>) (tc_threadId cl) now
                  else e1\<lparr>api := a2, recorded := recorded e1 @ [(tc_funType cl, tc_userId cl)]\<rparr>)"

text \<open>
  The engine's states: those that start without loops or timers and come about by
  starts, stops and timer firings.  In such a state every timer that is set has a handle
  the engine has issued and is the timer of the loop state of its conversation.
\<close>

definition engine_inv :: "engine \<Rightarrow> bool" where
  "engine_inv e \<longleftrightarrow>
     (\<forall>h cl. timers e h = Some cl \<longrightarrow>
        h < nextTimer e \<and> (\<exists>f. activeFuns e (tc_threadId cl) = Some f \<and> fs_interval f = h))"

inductive reachable :: "engine \<Rightarrow> bool" where
  init: "activeFuns e = Map.empty \<Longrightarrow> timers e = Map.empty \<Longrightarrow> reachable e"
| start: "reachable e \<Longrightarrow> reachable (snd (startFun e thread funType uid now))"
| stop: "reachable e \<Longrightarrow> reachable (snd (stopFun e thread now))"
| fire: "reachable e \<Longrightarrow> reachable (tick e h statsOk now)"

section \<open>The fun modules (commands/fun) and the bot's fun-thread table\<close>

text \<open>
  The modules murgi, cow, abal, goat and senior are one text with three things changed:
  the name, the decoration of a line at a given tick, and the number of ticks between two
  status messages.  A decoration either leaves the line as it is, or puts it between
  pictographs by a template literal (the \<open>k\<close>-th such decoration of the module), or, in
  abal, calls \<^verbatim>\<open>message.toUpperCase()\<close>.
\<close>

datatype decoration = Plain | Wrapped nat | UpperCased

record fun_module =
  fm_name :: string
  fm_decor :: "nat \<Rightarrow> decoration"
  fm_statusEvery :: nat

definition murgi :: fun_module where
  "murgi = \<lparr>fm_name = ''murgi'', fm_decor = (\<lambda>i. if i mod 3 = 0 then Wrapped 1 else Plain),
             fm_statusEvery = 15\<rparr>"

definition cow :: fun_module where
  "cow = \<lparr>fm_name = ''cow'', fm_decor = (\<lambda>i. if i mod 4 = 0 then Wrapped 1 else Plain),
           fm_statusEvery = 20\<rparr>"




text \<open>The object stored in \<^verbatim>\<open>bot.funThreads\<close>; callbacks hold it by reference.\<close>

record fun_thread =
  ft_type :: string
  ft_index :: nat
  ft_interval :: "nat option"
  ft_active :: bool
  ft_userID :: js_id

text \<open>The variables captured by a module's interval callback.\<close>

record loop_closure =
  lc_module :: fun_module
  lc_thread :: nat
  lc_threadID :: string
  lc_funData :: "string list"
  lc_iteration :: nat

text \<open>
  The bot with the runtime's timers: \<open>heap\<close> holds the fun-thread objects by address,
  \<open>funThreads\<close> is the table from conversation to object, \<open>intervals\<close> are the live
  interval timers and \<open>timeouts\<close> the pending one-shot timers (object, conversation,
  module name), both by handle.
\<close>

record bot =
  heap :: "nat \<rightharpoonup> fun_thread"
  nextAddr :: nat
  funThreads :: "string \<rightharpoonup> nat"
  intervals :: "nat \<rightharpoonup> loop_closure"
  timeouts :: "nat \<rightharpoonup> (nat \<times> string \<times> string)"
  nextHandle :: nat
  net :: transport
  funActive :: bool

text \<open>
  What \<^verbatim>\<open>fs.readJson\<close> makes of a data file: an exception, an array of strings, or an
  object that is no array, which has no \<^verbatim>\<open>length\<close> and no indexed elements.
\<close>

datatype fun_file = Unparsable | NotArray | Messages "string list"

text \<open>
  What the modules take from outside, as parameters.  \<open>files\<close>: the files of
  data/fun-json by type name.  \<open>helpers\<close>: the functions \<^verbatim>\<open>delay.funDelay\<close>, \<^verbatim>\<open>delay.sleep\<close>
  and \<^verbatim>\<open>delay.humanDelay\<close> are not defined under src/ (the delay module there exports
  \<^verbatim>\<open>getRandomDelay\<close> and \<^verbatim>\<open>delay\<close> only); \<open>helpers\<close> says whether the deployed delay
  module provides them: if so they wait and return, if not the call throws a TypeError.
  \<open>chor\<close>: commands/fun/chor is not under src/ either; it is taken to be a module of the
  same text as the five others, with its own name and periods.  \<open>engineText\<close>: the
  engine's wording of a TypeError, printed by the startfun command's \<^verbatim>\<open>catch\<close> block.
\<close>

record fun_env =
  files :: "string \<rightharpoonup> fun_file"
  helpers :: bool
  chor :: fun_module
  engineText :: string

definition clearInterval :: "nat option \<Rightarrow> bot \<Rightarrow> bot" where
  "clearInterval h b = (case h of None \<Rightarrow> b | Some i \<Rightarrow> b\<lparr>intervals := (intervals b)(i := None)\<rparr>)"

text \<open>
  \<^verbatim>\<open>funData[funThread.index % funData.length]\<close>: on an empty list the index is NaN and
  the element \<^verbatim>\<open>undefined\<close> (\<open>None\<close>).
\<close>

definition pick :: "string list \<Rightarrow> nat \<Rightarrow> string option" where
  "pick funData i = (if funData = [] then None else Some (funData ! (i mod length funData)))"

text \<open>
  The message of a tick.  A template literal prints \<^verbatim>\<open>undefined\<close> by name; the method call
  on it throws.
\<close>

definition decorate :: "decoration \<Rightarrow> string option \<Rightarrow> js_error + chat_msg" where
  "decorate d message =
     (case d of
        Plain \<Rightarrow> Inr (case message of Some m \<Rightarrow> Line m | None \<Rightarrow> NoLine)
      | Wrapped k \<Rightarrow> Inr (Decorated k (case message of Some m \<Rightarrow> m | None \<Rightarrow> ''undefined''))
      | UpperCased \<Rightarrow> (case message of Some m \<Rightarrow> Inr (Shouted m) | None \<Rightarrow> Inl TypeError))"

text \<open>
  \<^verbatim>\<open>execute(api, threadID, bot, userID)\<close> of a module.  A failed \<^verbatim>\<open>await api.sendMessage\<close>
  rejects the call; the result is that exception, if any, and the bot as it is left.
\<close>

definition fun_execute :: "fun_module \<Rightarrow> fun_env \<Rightarrow> string \<Rightarrow> js_id \<Rightarrow> bot \<Rightarrow> js_error option \<times> bot" where
  "fun_execute m env threadID userID b =
     (case files env (fm_name m) of
        None \<Rightarrow>
          (let (ok, n) = api_send (DataFileMissing (fm_name m)) threadID (net b)
           in (if ok then None else Some (Error ''sendMessage''), b\<lparr>net := n\<rparr>))
      | Some Unparsable \<Rightarrow> (Some (Error ''readJson''), b)
      | Some file \<Rightarrow>
          let funData = (case file of Messages ls \<Rightarrow> ls | _ \<Rightarrow> []);  \<comment> \<open>no array: every element read is \<^verbatim>\<open>undefined\<close>\<close>
              b1 = (if funThreads b threadID = None
                    then b\<lparr>heap := (heap b)(nextAddr b \<mapsto>
                                \<lparr>ft_type = fm_name m, ft_index = 0, ft_interval = None,
                                 ft_active = True, ft_userID = userID\<rparr>),
                           funThreads := (funThreads b)(threadID \<mapsto> nextAddr b),
                           nextAddr := Suc (nextAddr b)\<rparr>
                    else b);
              (ok, n) = api_send (FunStarting (fm_name m)) threadID (net b1);
              b2 = b1\<lparr>net := n\<rparr>
          in if \<not> ok then (Some (Error ''sendMessage''), b2)
             else
               (case funThreads b2 threadID of
                  None \<Rightarrow> (Some TypeError, b2)
                | Some a \<Rightarrow>
                    (case heap b2 a of
                       None \<Rightarrow> (Some TypeError, b2)
                     | Some ft \<Rightarrow>
                         let h = nextHandle b2;
                             closure = \<lparr>lc_module = m, lc_thread = a, lc_threadID = threadID,
                                        lc_funData = funData, lc_iteration = 0\<rparr>
                         in (None,
                             b2\<lparr>heap := (heap b2)(a \<mapsto> ft\<lparr>ft_interval := Some h\<rparr>),
                                intervals := (intervals b2)(h \<mapsto> closure),
                                timeouts := (timeouts b2)(Suc h \<mapsto> (a, threadID, fm_name m)),
                                nextHandle := Suc (Suc h)\<rparr>))))"

text \<open>The \<^verbatim>\<open>catch\<close> block of a module's interval callback.\<close>

definition loop_failed :: "loop_closure \<Rightarrow> bot \<Rightarrow> bot" where
  "loop_failed cl b =
     (case heap b (lc_thread cl) of
        None \<Rightarrow> b
      | Some ft \<Rightarrow> (clearInterval (ft_interval ft) b)\<lparr>funThreads := (funThreads b)(lc_threadID cl := None)\<rparr>)"

text \<open>One firing of the interval timer \<open>h\<close> of a module, run to its end.\<close>

definition fun_tick :: "fun_env \<Rightarrow> nat \<Rightarrow> bot \<Rightarrow> bot" where
  "fun_tick env h b =
     (case intervals b h of
        None \<Rightarrow> b
      | Some cl \<Rightarrow>
          (case heap b (lc_thread cl) of
             None \<Rightarrow> b
           | Some ft \<Rightarrow>
               if \<not> ft_active ft then clearInterval (ft_interval ft) b
               else
                 let message = pick (lc_funData cl) (ft_index ft)
                 in (case decorate (fm_decor (lc_module cl) (lc_iteration cl)) message of
                       Inl e \<Rightarrow> loop_failed cl b
                     | Inr finalMessage \<Rightarrow>
                         let (ok, n1) = api_send finalMessage (lc_threadID cl) (net b);
                             b1 = b\<lparr>net := n1\<rparr>
                         in if \<not> ok then loop_failed cl b1
                            else
                              let iteration = Suc (lc_iteration cl);
                                  b2 = b1\<lparr>heap := (heap b1)(lc_thread cl \<mapsto> ft\<lparr>ft_index := Suc (ft_index ft)\<rparr>),
                                          intervals := (intervals b1)(h \<mapsto> cl\<lparr>lc_iteration := iteration\<rparr>)\<rparr>
                              in if \<not> helpers env then loop_failed cl b2
                                 else if iteration mod fm_statusEvery (lc_module cl) = 0 then
                                   (let (ok2, n2) = api_send (StatusUpdate (fm_name (lc_module cl)) iteration)
                                                      (lc_threadID cl) (net b2);
                                        b3 = b2\<lparr>net := n2\<rparr>
                                    in if \<not> ok2 then loop_failed cl b3
                                       else if \<not> helpers env then loop_failed cl b3 else b3)
                                 else b2)))"

text \<open>The one-shot callback set by \<^verbatim>\<open>execute\<close> for five minutes later, firing as timer \<open>k\<close>.\<close>

definition fun_expire :: "nat \<Rightarrow> bot \<Rightarrow> bot" where
  "fun_expire k b =
     (case timeouts b k of
        None \<Rightarrow> b
      | Some (a, threadID, name) \<Rightarrow>
          let b1 = b\<lparr>timeouts := (timeouts b)(k := None)\<rparr>
          in (case heap b1 a of
                None \<Rightarrow> b1
              | Some ft \<Rightarrow>
                  if ft_active ft
                  then (let b2 = (clearInterval (ft_interval ft) b1)\<lparr>funThreads := (funThreads b1)(threadID := None)\<rparr>
                        in b2\<lparr>net := snd (api_send (AutoStopped name) threadID (net b2))\<rparr>)
                  else b1))"

text \<open>\<^verbatim>\<open>stop(threadID, bot)\<close> of a module.\<close>

definition fun_stop :: "fun_module \<Rightarrow> string \<Rightarrow> bot \<Rightarrow> bool \<times> bot" where
  "fun_stop m threadID b =
     (case funThreads b threadID of
        None \<Rightarrow> (False, b)
      | Some a \<Rightarrow>
          (case heap b a of
             None \<Rightarrow> (False, b)
           | Some ft \<Rightarrow>
               if ft_type ft = fm_name m
               then (True, (clearInterval (ft_interval ft) b)\<lparr>funThreads := (funThreads b)(threadID := None)\<rparr>)
               else (False, b)))"

section \<open>The startfun command (src/commands/admin/startFun.js)\<close>




text \<open>A message sent with \<^verbatim>\<open>await\<close> as the last act of a branch that then returns.\<close>

definition send_and_return :: "chat_msg \<Rightarrow> string \<Rightarrow> bot \<Rightarrow> js_error option \<times> bot" where
  "send_and_return m threadID b =
     (let (ok, n) = api_send m threadID (net b)
      in (if ok then None else Some (Error ''sendMessage''), b\<lparr>net := n\<rparr>))"



section \<open>Concrete inputs\<close>

definition demo_guard :: guard_env where
  "demo_guard = \<lparr>sha256 = rev, ownerLock = LockData (Some (rev ''61578706761898'')), admins = [''1001'']\<rparr>"

definition demo_env :: proc_env where
  "demo_env = \<lparr>guard = demo_guard, handlers = Map.empty, stringify = concat, sinkFailure = None,
                typeErrorText = ''x is not a function''\<rparr>"


definition idle_world :: world where
  "idle_world = \<lparr>limiter = Map.empty, audit = [], funUsage = [], cacheStore = Map.empty\<rparr>"

definition busy_world :: world where
  "busy_world = \<lparr>limiter = [''user:cmd:100'' \<mapsto> replicate 30 0], audit = [], funUsage = [],
                  cacheStore = Map.empty\<rparr>"


definition always_up :: transport where
  "always_up = \<lparr>up = (\<lambda>n. True), calls = []\<rparr>"

definition demo_engine :: engine where
  "demo_engine = \<lparr>activeFuns = Map.empty, funTemplates = [''murgi'' \<mapsto> [''kuk'', ''kuru'', ''ku'']],
                   timers = Map.empty, nextTimer = 0, api = always_up, recorded = []\<rparr>"


definition demo_fun_env :: fun_env where
  "demo_fun_env = \<lparr>files = [''murgi'' \<mapsto> Messages [''kuk'', ''kuru'', ''ku''],
                              ''cow'' \<mapsto> Messages [''moo'']],
                     helpers = True, chor = murgi, engineText = ''x is not a function''\<rparr>"

definition demo_bot :: bot where
  "demo_bot = \<lparr>heap = Map.empty, nextAddr = 0, funThreads = Map.empty, intervals = Map.empty,
                timeouts = Map.empty, nextHandle = 0, net = always_up, funActive = False\<rparr>"

definition second_call_fails :: transport where
  "second_call_fails = \<lparr>up = (\<lambda>n. n \<noteq> 1), calls = []\<rparr>"

definition murgi_flaky :: bot where
  "murgi_flaky = snd (fun_execute murgi demo_fun_env ''t1'' (IdStr ''100'') (demo_bot\<lparr>net := second_call_fails\<rparr>))"

definition engine_flaky :: engine where
  "engine_flaky = snd (startFun (demo_engine\<lparr>api := second_call_fails\<rparr>) ''t1'' ''murgi'' (IdStr ''100'') 1000)"

definition murgi_running :: bot where
  "murgi_running = snd (fun_execute murgi demo_fun_env ''t1'' (IdStr ''100'') demo_bot)"

definition murgi_stopped :: bot where
  "murgi_stopped = snd (fun_stop murgi ''t1'' murgi_running)"

definition cow_running :: bot where
  "cow_running = snd (fun_execute cow demo_fun_env ''t1'' (IdStr ''200'') murgi_stopped)"

section \<open>Properties of the rate limiter\<close>

lemma check_rejected_unchanged:
  "\<not> fst (check lims key limit windowMs now) \<Longrightarrow> snd (check lims key limit windowMs now) = lims"
  by (simp add: check_def Let_def split: if_splits)

lemma check_admitted_records:
  "fst (check lims key limit windowMs now) \<Longrightarrow>
   snd (check lims key limit windowMs now) =
     lims(key \<mapsto> filter (\<lambda>time. now - time < windowMs)
                     (case lims key of None \<Rightarrow> [] | Some ts \<Rightarrow> ts) @ [now])"
  by (simp add: check_def Let_def split: if_splits)


lemma check_first:
  assumes "\<forall>t \<in> set (case lims key of None \<Rightarrow> [] | Some ts \<Rightarrow> ts). windowMs \<le> now - t" "0 < limit"
  shows "check lims key limit windowMs now = (True, lims(key \<mapsto> [now]))"
proof -
  have "filter (\<lambda>time. now - time < windowMs) (case lims key of None \<Rightarrow> [] | Some ts \<Rightarrow> ts) = []"
    using assms(1) by (auto simp: filter_empty_conv)
  then show ?thesis using assms(2) by (simp add: check_def Let_def)
qed

lemma check_admit:
  assumes "lims key = Some ts" "\<forall>t \<in> set ts. now - t < windowMs" "int (length ts) < limit"
  shows "check lims key limit windowMs now = (True, lims(key \<mapsto> ts @ [now]))"
proof -
  have "filter (\<lambda>time. now - time < windowMs) ts = ts"
    using assms(2) by (simp add: filter_id_conv)
  then show ?thesis using assms by (simp add: check_def Let_def)
qed

lemma check_reject:
  assumes "lims key = Some ts" "\<forall>t \<in> set ts. now - t < windowMs" "limit \<le> int (length ts)"
  shows "check lims key limit windowMs now = (False, lims)"
proof -
  have "filter (\<lambda>time. now - time < windowMs) ts = ts"
    using assms(2) by (simp add: filter_id_conv)
  then show ?thesis using assms by (simp add: check_def Let_def)
qed

text \<open>
  Claim C3.  With \<open>limit = 5\<close> and \<open>windowMs = 60000\<close> on one key whose earlier entries, if
  any, have left the window: five calls at non-decreasing times are all admitted, a sixth
  call less than 60000 ms after the first is rejected and leaves the table as it was, and
  a call 60000 ms or more after the first is admitted again.  A time is appended to the
  key's list exactly by the admitted calls; no rejected call, on any table, records anything.
\<close>

theorem rate_limiter_window:
  assumes old: "\<forall>t \<in> set (case lims key of None \<Rightarrow> [] | Some ts \<Rightarrow> ts). 60000 \<le> t1 - t"
    and mono: "t1 \<le> t2 \<and> t2 \<le> t3 \<and> t3 \<le> t4 \<and> t4 \<le> t5 \<and> t5 \<le> t6"
    and within: "t6 - t1 < 60000"
    and elapsed: "60000 \<le> t7 - t1"
  shows "fst (check_seq lims key 5 60000 [t1, t2, t3, t4, t5, t6, t7])
           = [True, True, True, True, True, False, True]
       \<and> snd (check_seq lims key 5 60000 [t1, t2, t3, t4, t5]) = lims(key \<mapsto> [t1, t2, t3, t4, t5])
       \<and> snd (check_seq lims key 5 60000 [t1, t2, t3, t4, t5, t6]) = lims(key \<mapsto> [t1, t2, t3, t4, t5])
       \<and> snd (check_seq lims key 5 60000 [t1, t2, t3, t4, t5, t6, t7])
           = lims(key \<mapsto> filter (\<lambda>t. t7 - t < 60000) [t2, t3, t4, t5] @ [t7])
       \<and> (\<forall>l k lim w n. \<not> fst (check l k lim w n) \<longrightarrow> snd (check l k lim w n) = l)"
proof -
  have c1: "check lims key 5 60000 t1 = (True, lims(key \<mapsto> [t1]))"
    using old by (intro check_first) auto
  have c2: "check (lims(key \<mapsto> [t1])) key 5 60000 t2 = (True, lims(key \<mapsto> [t1, t2]))"
    using mono within check_admit[of "lims(key \<mapsto> [t1])" key "[t1]" t2 60000 5] by simp
  have c3: "check (lims(key \<mapsto> [t1, t2])) key 5 60000 t3 = (True, lims(key \<mapsto> [t1, t2, t3]))"
    using mono within check_admit[of "lims(key \<mapsto> [t1, t2])" key "[t1, t2]" t3 60000 5] by simp
  have c4: "check (lims(key \<mapsto> [t1, t2, t3])) key 5 60000 t4 = (True, lims(key \<mapsto> [t1, t2, t3, t4]))"
    using mono within check_admit[of "lims(key \<mapsto> [t1, t2, t3])" key "[t1, t2, t3]" t4 60000 5] by simp
  have c5: "check (lims(key \<mapsto> [t1, t2, t3, t4])) key 5 60000 t5 = (True, lims(key \<mapsto> [t1, t2, t3, t4, t5]))"
    using mono within check_admit[of "lims(key \<mapsto> [t1, t2, t3, t4])" key "[t1, t2, t3, t4]" t5 60000 5] by simp
  have c6: "check (lims(key \<mapsto> [t1, t2, t3, t4, t5])) key 5 60000 t6 = (False, lims(key \<mapsto> [t1, t2, t3, t4, t5]))"
    using mono within check_reject[of "lims(key \<mapsto> [t1, t2, t3, t4, t5])" key "[t1, t2, t3, t4, t5]" t6 60000 5] by simp
  have len: "length (filter (\<lambda>t. t7 - t < 60000) [t2, t3, t4, t5]) \<le> 4"
    using length_filter_le[of "\<lambda>t. t7 - t < 60000" "[t2, t3, t4, t5]"] by simp
  have c7: "check (lims(key \<mapsto> [t1, t2, t3, t4, t5])) key 5 60000 t7
              = (True, lims(key \<mapsto> filter (\<lambda>t. t7 - t < 60000) [t2, t3, t4, t5] @ [t7]))"
    using elapsed len by (simp add: check_def Let_def)
  have rej: "\<forall>l k lim w n. \<not> fst (check l k lim w n) \<longrightarrow> snd (check l k lim w n) = l"
    by (simp add: check_rejected_unchanged)
  show ?thesis
    using rej by (simp add: c1 c2 c3 c4 c5 c6 c7)
qed

theorem rate_limiter_window_witness:
  "fst (check_seq Map.empty ''user:fun:42:murgi'' 5 60000 [0, 1000, 2000, 3000, 4000, 5000, 60000])
           = [True, True, True, True, True, False, True]
   \<and> snd (check_seq Map.empty ''user:fun:42:murgi'' 5 60000 [0, 1000, 2000, 3000, 4000, 5000, 60000]) ''user:fun:42:murgi''
           = Some [1000, 2000, 3000, 4000, 60000]"
  using rate_limiter_window[of Map.empty "''user:fun:42:murgi''" 0 1000 2000 3000 4000 5000 60000]
  by simp

section \<open>Properties of the role guard and the command pipeline\<close>

lemma isOwner_total: "\<exists>b. isOwner g uid = Inr b"
  by (auto simp: isOwner_def verifyOwner_def split: sum.splits)

text \<open>
  Claim C6.  Unless the sender id has a string form whose digest equals the committed
  \<open>ownerHash\<close> of a readable owner record, \<open>isOwner\<close> returns false; it returns (\<open>Inr\<close>)
  rather than throws (\<open>Inl\<close>), also for \<^verbatim>\<open>null\<close>, \<^verbatim>\<open>undefined\<close>, empty and numeric ids
  and for an unreadable record.
\<close>

theorem isOwner_false_without_match:
  "\<not> (\<exists>s. js_toString uid = Inr s \<and> ownerLock g = LockData (Some (sha256 g s)))
   \<Longrightarrow> isOwner g uid = Inr False"
  by (auto simp: isOwner_def verifyOwner_def verifyOwner_try_def hashUid_def
           split: sum.splits owner_lock.splits)

theorem isOwner_false_without_match_witness:
  "isOwner demo_guard IdNull = Inr False
   \<and> isOwner demo_guard IdUndefined = Inr False
   \<and> isOwner demo_guard (IdStr []) = Inr False
   \<and> isOwner (demo_guard\<lparr>ownerLock := LockUnreadable\<rparr>) (IdStr ''61578706761898'') = Inr False"
  using isOwner_false_without_match[of IdNull demo_guard]
        isOwner_false_without_match[of IdUndefined demo_guard]
        isOwner_false_without_match[of "IdStr []" demo_guard]
        isOwner_false_without_match[of "IdStr ''61578706761898''" "demo_guard\<lparr>ownerLock := LockUnreadable\<rparr>"]
  by (simp add: demo_guard_def)

text \<open>
  Claim C7.  The claim says that \<open>isOwner\<close>, \<open>isAdmin\<close> and \<open>check\<close> return a boolean for
  every input, \<^verbatim>\<open>null\<close> and \<^verbatim>\<open>undefined\<close> ids included.  \<open>isAdmin\<close> calls
  \<^verbatim>\<open>userId.toString()\<close> outside any \<^verbatim>\<open>try\<close>, so on those two ids it throws a TypeError,
  where \<open>isOwner\<close> on the same ids returns false.
\<close>

theorem isAdmin_throws_without_id:
  "isAdmin g IdNull = Inl TypeError \<and> isAdmin g IdUndefined = Inl TypeError"
  by (simp add: isAdmin_def)

lemma run_chain_stopped:
  "\<not> shouldContinue c \<Longrightarrow> run_chain ms env now (w, c) = (None, w, c)"
  by (cases ms) simp_all

lemma validation_msgs_not_rate_msgs:
  "m \<in> {msg_invalid_name, msg_invalid_args, msg_invalid_context}
   \<Longrightarrow> m \<notin> {msg_rate_user, msg_rate_thread, msg_rate_fun, msg_rate_admin}"
  by (auto simp: msg_invalid_name_def msg_invalid_args_def msg_invalid_context_def
        msg_rate_user_def msg_rate_thread_def msg_rate_fun_def msg_rate_admin_def
        cross_mark_def warning_sign_def)

lemma validateInput_invalid:
  assumes "\<not> isValidCommandInput (command c) 1 50 \<or> (\<exists>a \<in> set (args c). \<not> isValidCommandInput a 0 500)
           \<or> \<not> truthy (threadId c) \<or> \<not> truthy (userId c)"
  shows "\<exists>m \<in> {msg_invalid_name, msg_invalid_args, msg_invalid_context}.
           validateInput env now (w, c) = (None, w, reject c m)"
  using assms by (auto simp: validateInput_def list_ex_iff)

lemma validateInput_valid:
  assumes "isValidCommandInput (command c) 1 50" "\<forall>a \<in> set (args c). isValidCommandInput a 0 500"
          "truthy (threadId c)" "truthy (userId c)"
  shows "validateInput env now (w, c) = (None, w, c)"
  using assms by (auto simp: validateInput_def list_ex_iff)

text \<open>
  Claim C4.  An invocation that fails validation (bad command name, a bad argument, or a
  missing thread or sender id) is answered with one of the three validation messages,
  none of which is a rate-limit message, and the singletons are left as they were: the
  rate limiter is not consulted, whatever its table holds.  Validate is the first
  middleware and RateCheck the second, and a context whose continue flag is false passes
  through any remaining chain unchanged.
\<close>

theorem validation_rejects_before_rate_check:
  assumes invalid: "\<not> isValidCommandInput cmd 1 50 \<or> (\<exists>a \<in> set as. \<not> isValidCommandInput a 0 500)
                    \<or> \<not> truthy t \<or> \<not> truthy s"
  shows "(\<exists>m \<in> {msg_invalid_name, msg_invalid_args, msg_invalid_context}.
            process env now w s t cmd as = (Inr (Some m), w)
            \<and> m \<notin> {msg_rate_user, msg_rate_thread, msg_rate_fun, msg_rate_admin})
         \<and> take 2 middlewares = [validateInput, checkRateLimit]
         \<and> (\<forall>ms w' c. \<not> shouldContinue c \<longrightarrow> run_chain ms env now (w', c) = (None, w', c))"
proof -
  let ?c = "initial_ctx s t cmd as"
  have "\<not> isValidCommandInput (command ?c) 1 50 \<or> (\<exists>a \<in> set (args ?c). \<not> isValidCommandInput a 0 500)
           \<or> \<not> truthy (threadId ?c) \<or> \<not> truthy (userId ?c)"
    using invalid by (simp add: initial_ctx_def)
  from validateInput_invalid[OF this, of env now w]
  obtain m where m: "m \<in> {msg_invalid_name, msg_invalid_args, msg_invalid_context}"
    and v: "validateInput env now (w, ?c) = (None, w, reject ?c m)"
    by blast
  have sc: "shouldContinue ?c" by (simp add: initial_ctx_def)
  have stop: "\<not> shouldContinue (reject ?c m)" by (simp add: reject_def)
  have "run_chain middlewares env now (w, ?c)
          = run_chain [checkRateLimit, checkPermissions, logCommand, executeCommand] env now (w, reject ?c m)"
    unfolding middlewares_def by (subst run_chain.simps) (simp del: run_chain.simps add: sc v)
  then have "run_chain middlewares env now (w, ?c) = (None, w, reject ?c m)"
    by (simp only: run_chain_stopped[OF stop])
  then have "process env now w s t cmd as = (Inr (Some m), w)"
    by (simp add: process_def reject_def)
  moreover have "take 2 middlewares = [validateInput, checkRateLimit]"
    by (simp add: middlewares_def)
  ultimately show ?thesis
    using m validation_msgs_not_rate_msgs[OF m] run_chain_stopped by blast
qed

lemma eval_invalid: "\<not> isValidCommandInput ''eval('' 1 50"
  by (simp add: isValidCommandInput_def maliciousPatterns_def pattern_test_def lower_def)

lemma busy: "snd (snd (checkRateLimit demo_env 0 (busy_world, initial_ctx (IdStr ''100'') (IdStr ''t1'') ''eval('' [])))
       = reject (initial_ctx (IdStr ''100'') (IdStr ''t1'') ''eval('' []) msg_rate_user"
  by (simp add: checkRateLimit_def checkUserCommand_def check_def busy_world_def initial_ctx_def)

theorem validation_rejects_before_rate_check_witness:
  "process demo_env 0 busy_world (IdStr ''100'') (IdStr ''t1'') ''eval('' []
      = (Inr (Some msg_invalid_name), busy_world)
   \<and> snd (snd (checkRateLimit demo_env 0 (busy_world, initial_ctx (IdStr ''100'') (IdStr ''t1'') ''eval('' [])))
       = reject (initial_ctx (IdStr ''100'') (IdStr ''t1'') ''eval('' []) msg_rate_user"
proof -
  have h: "\<not> isValidCommandInput ''eval('' 1 50 \<or> (\<exists>a \<in> set []. \<not> isValidCommandInput a 0 500)
           \<or> \<not> truthy (IdStr ''t1'') \<or> \<not> truthy (IdStr ''100'')"
    using eval_invalid by simp
  have v: "validateInput demo_env 0 (busy_world, initial_ctx (IdStr ''100'') (IdStr ''t1'') ''eval('' [])
           = (None, busy_world, reject (initial_ctx (IdStr ''100'') (IdStr ''t1'') ''eval('' []) msg_invalid_name)"
    using eval_invalid by (simp add: validateInput_def initial_ctx_def)
  from validation_rejects_before_rate_check[OF h, of demo_env 0 busy_world]
  obtain m where p: "process demo_env 0 busy_world (IdStr ''100'') (IdStr ''t1'') ''eval('' [] = (Inr (Some m), busy_world)"
    by blast
  have "process demo_env 0 busy_world (IdStr ''100'') (IdStr ''t1'') ''eval('' []
          = (Inr (Some msg_invalid_name), busy_world)"
    using v by (simp add: process_def middlewares_def initial_ctx_def reject_def)
  with p busy show ?thesis by simp
qed




lemma validateInput_shape:
  "validateInput env now (w, c) = (e, w', c') \<Longrightarrow>
     e = None \<and> w' = w \<and> c' \<in> {c, reject c msg_invalid_name, reject c msg_invalid_args, reject c msg_invalid_context}"
  by (auto simp: validateInput_def split: if_splits)

lemma checkPermissions_shape:
  "checkPermissions env now (w, c) = (e, w', c') \<Longrightarrow>
     w' = w \<and> c' \<in> {c, reject c msg_owner_required, reject c msg_admin_required,
                       reject c msg_fun_required, reject c msg_unknown_category}"
  by (auto simp: checkPermissions_def Let_def split: if_splits sum.splits bool.splits)

lemma logCommand_shape:
  "logCommand env now (w, c) = (e, w', c') \<Longrightarrow> limiter w' = limiter w \<and> c' = c"
  by (auto simp: logCommand_def Let_def split: if_splits option.splits)




lemma reject_fields [simp]:
  "userId (reject c m) = userId c" "command (reject c m) = command c"
  "response (reject c m) = Some m" "shouldContinue (reject c m) = False"
  by (simp_all add: reject_def)



lemma foo_valid: "isValidCommandInput ''foo'' 1 50"
  by code_simp

text \<open>
  Claim C5, as stated, fails: the command \<^verbatim>\<open>foo\<close> has no handler and is in none of the
  category lists, and a valid invocation of it within every quota is answered by the
  Authorize stage with "Unknown command category.", not with "command not found".
\<close>

theorem unknown_command_counterexample:
  "handlers demo_env ''foo'' = None
   \<and> fst (process demo_env 0 idle_world (IdStr ''100'') (IdStr ''t1'') ''foo'' []) = Inr (Some msg_unknown_category)
   \<and> msg_unknown_category \<noteq> msg_not_found ''foo''"
proof -
  let ?c = "initial_ctx (IdStr ''100'') (IdStr ''t1'') ''foo'' []"
  have v: "validateInput demo_env 0 (idle_world, ?c) = (None, idle_world, ?c)"
    using foo_valid by (simp add: validateInput_def initial_ctx_def)
  have r: "checkRateLimit demo_env 0 (idle_world, ?c)
           = (None, idle_world\<lparr>limiter := [''user:cmd:100'' \<mapsto> [0], ''thread:msg:t1'' \<mapsto> [0]]\<rparr>, ?c)"
    by (simp add: checkRateLimit_def checkUserCommand_def checkThreadMessage_def check_def
          idle_world_def initial_ctx_def demo_env_def demo_guard_def isAdmin_def)
  have p: "checkPermissions demo_env 0 (idle_world\<lparr>limiter := [''user:cmd:100'' \<mapsto> [0], ''thread:msg:t1'' \<mapsto> [0]]\<rparr>, ?c)
           = (None, idle_world\<lparr>limiter := [''user:cmd:100'' \<mapsto> [0], ''thread:msg:t1'' \<mapsto> [0]]\<rparr>, reject ?c msg_unknown_category)"
    by (simp add: checkPermissions_def getCommandCategory_def initial_ctx_def)
  have sc: "shouldContinue ?c" by (simp add: initial_ctx_def)
  have "fst (process demo_env 0 idle_world (IdStr ''100'') (IdStr ''t1'') ''foo'' []) = Inr (Some msg_unknown_category)"
    by (simp add: process_def middlewares_def v r p sc)
  moreover have "msg_unknown_category \<noteq> msg_not_found ''foo''"
    by (simp add: msg_unknown_category_def msg_not_found_def cross_mark_def)
  moreover have "handlers demo_env ''foo'' = None" by (simp add: demo_env_def)
  ultimately show ?thesis by simp
qed

lemma run_chain_append:
  "run_chain (ms @ ms') env now (w, c) =
     (case run_chain ms env now (w, c) of
        (Some e, w', c') \<Rightarrow> (Some e, w', c')
      | (None, w', c') \<Rightarrow> run_chain ms' env now (w', c'))"
proof (induction ms arbitrary: w c)
  case Nil
  then show ?case by simp
next
  case (Cons m ms)
  show ?case
  proof (cases "shouldContinue c")
    case False
    then show ?thesis by (simp add: run_chain_stopped)
  next
    case True
    then show ?thesis using Cons.IH by (simp split: prod.splits option.splits)
  qed
qed

lemma stage_keeps_flag:
  assumes "m \<in> set middlewares" "m env now (w, c) = (e, w', c')" "shouldContinue c'"
  shows "shouldContinue c \<and> command c' = command c"
proof -
  from assms(1) consider "m = validateInput" | "m = checkRateLimit" | "m = checkPermissions"
      | "m = logCommand" | "m = executeCommand"
      by (auto simp: middlewares_def)
  then show ?thesis
  proof cases
    case 1
    with assms validateInput_shape[of env now w c e w' c'] show ?thesis by auto
  next
    case 2
    with assms show ?thesis
      by (auto simp: checkRateLimit_def Let_def split: if_splits prod.splits sum.splits bool.splits)
  next
    case 3
    with assms checkPermissions_shape[of env now w c e w' c'] show ?thesis by auto
  next
    case 4
    with assms logCommand_shape[of env now w c e w' c'] show ?thesis by auto
  next
    case 5
    with assms show ?thesis
      by (auto simp: executeCommand_def Let_def split: if_splits option.splits sum.splits)
  qed
qed

lemma chain_keeps_flag:
  assumes "set ms \<subseteq> set middlewares" "run_chain ms env now (w, c) = (e, w', c')" "shouldContinue c'"
  shows "shouldContinue c \<and> command c' = command c"
  using assms
proof (induction ms arbitrary: w c)
  case Nil
  then show ?case by simp
next
  case (Cons m ms)
  show ?case
  proof (cases "shouldContinue c")
    case False
    with Cons.prems show ?thesis by simp
  next
    case True
    obtain e1 w1 c1 where m1: "m env now (w, c) = (e1, w1, c1)" by (metis prod_cases3)
    have mm: "m \<in> set middlewares" using Cons.prems(1) by simp
    show ?thesis
    proof (cases e1)
      case None
      with True m1 Cons.prems(2) have rc: "run_chain ms env now (w1, c1) = (e, w', c')" by simp
      have "shouldContinue c1 \<and> command c' = command c1"
        using Cons.IH[OF _ rc Cons.prems(3)] Cons.prems(1) by simp
      with stage_keeps_flag[OF mm m1] show ?thesis by simp
    next
      case (Some a)
      with True m1 Cons.prems(2) have "c1 = c'" by simp
      with stage_keeps_flag[OF mm m1] Cons.prems(3) show ?thesis by simp
    qed
  qed
qed

lemma checkPermissions_pass:
  assumes "checkPermissions env now (w, c) = (e, w', c')" "shouldContinue c'"
  shows "getCommandCategory (command c) \<in> {''owner'', ''admin'', ''fun'', ''user''}"
  using assms
  by (auto simp: checkPermissions_def Let_def split: if_splits sum.splits bool.splits)

text \<open>
  A command name in none of the category lists: an invocation that gets through Validate
  and RateCheck is answered by Authorize, whether or not a handler is registered.
\<close>

lemma unlisted_command_rejected_by_authorize:
  assumes unlisted: "getCommandCategory cmd = ''unknown''"
    and passed: "run_chain [validateInput, checkRateLimit] env now (w, initial_ctx s t cmd as) = (None, w2, c2)"
    and continuing: "shouldContinue c2"
  shows "process env now w s t cmd as = (Inr (Some msg_unknown_category), w2)"
proof -
  have sub: "set [validateInput, checkRateLimit] \<subseteq> set middlewares"
    by (simp add: middlewares_def)
  have cmd2: "command c2 = cmd"
    using chain_keeps_flag[OF sub passed continuing] by (simp add: initial_ctx_def)
  have split: "middlewares = [validateInput, checkRateLimit] @ [checkPermissions, logCommand, executeCommand]"
    by (simp add: middlewares_def)
  have p: "checkPermissions env now (w2, c2) = (None, w2, reject c2 msg_unknown_category)"
    using unlisted cmd2 by (simp add: checkPermissions_def)
  have "run_chain middlewares env now (w, initial_ctx s t cmd as)
          = run_chain [checkPermissions, logCommand, executeCommand] env now (w2, c2)"
    unfolding split by (subst run_chain_append) (simp only: passed prod.case option.case)
  also have "\<dots> = run_chain [logCommand, executeCommand] env now (w2, reject c2 msg_unknown_category)"
    by (subst run_chain.simps) (simp del: run_chain.simps add: continuing p)
  also have "\<dots> = (None, w2, reject c2 msg_unknown_category)"
    by (rule run_chain_stopped) simp
  finally show ?thesis by (simp add: process_def)
qed

lemma not_found_mentions_help: "sublist ''!help'' (msg_not_found cmd)"
proof -
  have "msg_not_found cmd
        = (cross_mark @ '' Command '' @ [CHR 0x22] @ cmd @ [CHR 0x22] @ '' not found. Use '')
          @ ''!help'' @ '' for available commands.''"
    by (simp add: msg_not_found_def)
  then show ?thesis by (metis sublist_appendI)
qed

text \<open>
  Claim C5, amended.  For a command name without a registered handler, an invocation that
  gets through Validate, RateCheck, Authorize and Log with its continue flag still set is
  answered with the "command not found" message, which contains \<^verbatim>\<open>!help\<close>; such a name is
  in one of the four category lists.
\<close>

theorem missing_handler_reported_when_reached:
  assumes nohandler: "handlers env cmd = None"
    and reached: "run_chain [validateInput, checkRateLimit, checkPermissions, logCommand] env now
                    (w, initial_ctx s t cmd as) = (None, w', c')"
    and continuing: "shouldContinue c'"
  shows "process env now w s t cmd as = (Inr (Some (msg_not_found cmd)), w')
         \<and> sublist ''!help'' (msg_not_found cmd)
         \<and> getCommandCategory cmd \<in> {''owner'', ''admin'', ''fun'', ''user''}"
proof -
  let ?c0 = "initial_ctx s t cmd as"
  have sub: "set [validateInput, checkRateLimit, checkPermissions, logCommand] \<subseteq> set middlewares"
    by (simp add: middlewares_def)
  have cmd': "command c' = cmd"
    using chain_keeps_flag[OF sub reached continuing] by (simp add: initial_ctx_def)
  have split: "middlewares = [validateInput, checkRateLimit, checkPermissions, logCommand] @ [executeCommand]"
    by (simp add: middlewares_def)
  have ex: "executeCommand env now (w', c') = (None, w', reject c' (msg_not_found cmd))"
    using nohandler cmd' by (simp add: executeCommand_def)
  have "run_chain middlewares env now (w, ?c0) = run_chain [executeCommand] env now (w', c')"
    unfolding split by (subst run_chain_append) (simp only: reached prod.case option.case)
  also have "\<dots> = (None, w', reject c' (msg_not_found cmd))"
    using continuing ex by simp
  finally have p: "process env now w s t cmd as = (Inr (Some (msg_not_found cmd)), w')"
    by (simp add: process_def)
  have cat: "getCommandCategory cmd \<in> {''owner'', ''admin'', ''fun'', ''user''}"
  proof -
    have l4: "[validateInput, checkRateLimit, checkPermissions, logCommand]
               = [validateInput, checkRateLimit] @ [checkPermissions, logCommand]" by simp
    obtain e2 w2 c2 where r2: "run_chain [validateInput, checkRateLimit] env now (w, ?c0) = (e2, w2, c2)"
      by (metis prod_cases3)
    have e2: "e2 = None"
      using reached r2 unfolding l4 by (subst (asm) run_chain_append) (auto split: option.splits)
    have r34: "run_chain [checkPermissions, logCommand] env now (w2, c2) = (None, w', c')"
      using reached r2 e2 unfolding l4 by (subst (asm) run_chain_append) simp
    have sub34: "set [checkPermissions, logCommand] \<subseteq> set middlewares" by (simp add: middlewares_def)
    have sub12: "set [validateInput, checkRateLimit] \<subseteq> set middlewares" by (simp add: middlewares_def)
    have c2: "shouldContinue c2" using chain_keeps_flag[OF sub34 r34 continuing] by simp
    have cmd2: "command c2 = cmd"
      using chain_keeps_flag[OF sub12 r2 c2] by (simp add: initial_ctx_def)
    obtain e3 w3 c3 where r3: "checkPermissions env now (w2, c2) = (e3, w3, c3)" by (metis prod_cases3)
    have "shouldContinue c3"
    proof (cases e3)
      case None
      with r34 c2 r3 have "run_chain [logCommand] env now (w3, c3) = (None, w', c')" by simp
      from chain_keeps_flag[OF _ this continuing] show ?thesis by (simp add: middlewares_def)
    next
      case (Some a)
      with r34 c2 r3 show ?thesis by simp
    qed
    from checkPermissions_pass[OF r3 this] cmd2 show ?thesis by simp
  qed
  from p cat not_found_mentions_help show ?thesis by simp
qed

theorem missing_handler_reported_when_reached_witness:
  "process demo_env 0 idle_world (IdStr ''100'') (IdStr ''t1'') ''help'' []
     = (Inr (Some (msg_not_found ''help'')),
        idle_world\<lparr>limiter := [''user:cmd:100'' \<mapsto> [0], ''thread:msg:t1'' \<mapsto> [0]],
                     audit := [(IdStr ''100'', IdStr ''t1'', ''help'', [])]\<rparr>)
   \<and> sublist ''!help'' (msg_not_found ''help'')"
proof -
  let ?c = "initial_ctx (IdStr ''100'') (IdStr ''t1'') ''help'' []"
  let ?w1 = "idle_world\<lparr>limiter := [''user:cmd:100'' \<mapsto> [0], ''thread:msg:t1'' \<mapsto> [0]]\<rparr>"
  have hv: "isValidCommandInput ''help'' 1 50" by code_simp
  have v: "validateInput demo_env 0 (idle_world, ?c) = (None, idle_world, ?c)"
    using hv by (simp add: validateInput_def initial_ctx_def)
  have r: "checkRateLimit demo_env 0 (idle_world, ?c) = (None, ?w1, ?c)"
    by (simp add: checkRateLimit_def checkUserCommand_def checkThreadMessage_def check_def
          idle_world_def initial_ctx_def demo_env_def demo_guard_def isAdmin_def)
  have p: "checkPermissions demo_env 0 (?w1, ?c) = (None, ?w1, ?c)"
    by (simp add: checkPermissions_def getCommandCategory_def initial_ctx_def)
  have l: "logCommand demo_env 0 (?w1, ?c)
           = (None, ?w1\<lparr>audit := [(IdStr ''100'', IdStr ''t1'', ''help'', [])]\<rparr>, ?c)"
    by (simp add: logCommand_def demo_env_def initial_ctx_def idle_world_def sublist_code)
  have sc: "shouldContinue ?c" by (simp add: initial_ctx_def)
  have reached: "run_chain [validateInput, checkRateLimit, checkPermissions, logCommand] demo_env 0 (idle_world, ?c)
                 = (None, ?w1\<lparr>audit := [(IdStr ''100'', IdStr ''t1'', ''help'', [])]\<rparr>, ?c)"
    by (simp add: v r p l sc)
  have nh: "handlers demo_env ''help'' = None" by (simp add: demo_env_def)
  from missing_handler_reported_when_reached[OF nh reached sc] show ?thesis
    by (simp add: idle_world_def)
qed

section \<open>Properties of the fun loops\<close>

lemma engine_inv_one_timer:
  assumes "engine_inv e" "timers e h = Some cl" "timers e h' = Some cl'" "tc_threadId cl = tc_threadId cl'"
  shows "h = h'"
  using assms unfolding engine_inv_def by (metis option.inject)

lemma engine_inv_startFun:
  assumes "engine_inv e"
  shows "engine_inv (snd (startFun e thread funType uid now))"
  using assms unfolding engine_inv_def
  by (auto simp: startFun_def Let_def less_Suc_eq split: option.splits if_splits) fastforce+

lemma engine_inv_stopFun:
  assumes "engine_inv e"
  shows "engine_inv (snd (stopFun e thread now))"
  using assms unfolding engine_inv_def
  by (auto simp: stopFun_def Let_def split: option.splits if_splits) fastforce+

lemma engine_inv_api:
  "engine_inv (e\<lparr>api := a\<rparr>) = engine_inv e"
  by (simp add: engine_inv_def)

lemma engine_inv_tick_failed:
  assumes "engine_inv e"
  shows "engine_inv (tick_failed e thread now)"
  using engine_inv_stopFun[OF assms, of thread now]
  by (simp add: tick_failed_def Let_def engine_inv_api)

lemma engine_inv_advance:
  assumes "engine_inv e" "timers e h = Some cl"
  shows "engine_inv (e\<lparr>timers := (timers e)(h \<mapsto> cl\<lparr>currentIndex := i\<rparr>)\<rparr>)"
  using assms unfolding engine_inv_def by auto

lemma engine_inv_advance_api:
  assumes "engine_inv e" "timers e h = Some cl"
  shows "engine_inv (e\<lparr>timers := (timers e)(h \<mapsto> cl\<lparr>currentIndex := i\<rparr>), api := a\<rparr>)"
    and "engine_inv (e\<lparr>timers := (timers e)(h \<mapsto> cl\<lparr>currentIndex := i\<rparr>), api := a, recorded := r\<rparr>)"
  using assms unfolding engine_inv_def by auto

lemma engine_inv_tick:
  assumes "engine_inv e"
  shows "engine_inv (tick e h statsOk now)"
proof (cases "timers e h")
  case None
  with assms show ?thesis by (simp add: tick_def)
next
  case (Some cl)
  show ?thesis
    using Some
    by (auto simp: tick_def Let_def split: prod.splits
             intro!: engine_inv_tick_failed engine_inv_advance_api[OF assms Some])
qed

lemma reachable_engine_inv: "reachable e \<Longrightarrow> engine_inv e"
proof (induction rule: reachable.induct)
  case (init e)
  then show ?case by (simp add: engine_inv_def)
next
  case (start e thread funType uid now)
  then show ?case by (simp add: engine_inv_startFun)
next
  case (stop e thread now)
  then show ?case by (simp add: engine_inv_stopFun)
next
  case (fire e h statsOk now)
  then show ?case by (simp add: engine_inv_tick)
qed

text \<open>In a reachable state of the engine, a conversation has at most one timer set.\<close>

lemma one_timer_per_conversation:
  assumes "reachable e" "timers e h = Some cl" "timers e h' = Some cl'"
    and "tc_threadId cl = tc_threadId cl'"
  shows "h = h'"
  using engine_inv_one_timer[OF reachable_engine_inv[OF assms(1)] assms(2,3,4)] .


lemma send_and_return_net:
  "(snd (send_and_return m t b))\<lparr>net := net b\<rparr> = b"
  by (simp add: send_and_return_def api_send_def Let_def)






lemma round_seconds_nonneg: "0 \<le> d \<Longrightarrow> 0 \<le> round_seconds d"
  by (simp add: round_seconds_def)

text \<open>
  What holds of a start that succeeds and a stop with no tick in between: the start sets
  a timer and stores a state with counter 0 and the start's clock reading; the stop
  reports the loop's type and starter, the rounded difference of the two clock readings
  (at least 0 when the clock has not gone back) and the count 0, no message having been
  sent; it leaves the engine as it was before the start but for the next timer handle,
  and a firing of the cleared timer changes nothing.
\<close>

lemma start_then_stop_roundtrip:
  assumes started: "startFun e thread funType uid now = (StartSuccess m, e1)"
  shows "\<exists>lines. lookup_template e funType = Some lines
           \<and> timers e1 (nextTimer e)
               = Some \<lparr>tc_threadId = thread, tc_funType = funType, tc_userId = uid,
                       tc_lines = lines, currentIndex = 0\<rparr>
           \<and> activeFuns e1 thread
               = Some \<lparr>fs_type = funType, fs_interval = nextTimer e, fs_index = 0, fs_lines = lines,
                       fs_userId = uid, fs_startTime = now, fs_messageCount = 0\<rparr>
           \<and> stopFun e1 thread now'
               = (StopSuccess \<lparr>st_type = funType, st_duration = round_seconds (now' - now),
                               st_messagesSent = 0, st_userId = uid\<rparr>,
                  e\<lparr>nextTimer := Suc (nextTimer e), timers := (timers e)(nextTimer e := None)\<rparr>)
           \<and> (now \<le> now' \<longrightarrow> 0 \<le> round_seconds (now' - now))
           \<and> (\<forall>statsOk t. tick (snd (stopFun e1 thread now')) (nextTimer e) statsOk t
                             = snd (stopFun e1 thread now'))"
proof -
  from started obtain lines where
    tmpl: "lookup_template e funType = Some lines" and
    idle: "activeFuns e thread = None" and
    e1: "e1 = e\<lparr>timers := (timers e)(nextTimer e \<mapsto>
                  \<lparr>tc_threadId = thread, tc_funType = funType, tc_userId = uid,
                   tc_lines = lines, currentIndex = 0\<rparr>),
                nextTimer := Suc (nextTimer e),
                activeFuns := (activeFuns e)(thread \<mapsto>
                  \<lparr>fs_type = funType, fs_interval = nextTimer e, fs_index = 0, fs_lines = lines,
                   fs_userId = uid, fs_startTime = now, fs_messageCount = 0\<rparr>)\<rparr>"
    by (auto simp: startFun_def Let_def split: if_splits option.splits)
  have unchanged: "(activeFuns e)(thread := None) = activeFuns e"
    using idle by auto
  have stop: "stopFun e1 thread now'
               = (StopSuccess \<lparr>st_type = funType, st_duration = round_seconds (now' - now),
                               st_messagesSent = 0, st_userId = uid\<rparr>,
                  e\<lparr>nextTimer := Suc (nextTimer e), timers := (timers e)(nextTimer e := None)\<rparr>)"
    by (simp add: stopFun_def e1 unchanged)
  have quiet: "\<forall>statsOk t. tick (snd (stopFun e1 thread now')) (nextTimer e) statsOk t
                             = snd (stopFun e1 thread now')"
    by (simp add: stop tick_def)
  have "timers e1 (nextTimer e)
               = Some \<lparr>tc_threadId = thread, tc_funType = funType, tc_userId = uid,
                       tc_lines = lines, currentIndex = 0\<rparr>"
    by (simp add: e1)
  moreover have "activeFuns e1 thread
               = Some \<lparr>fs_type = funType, fs_interval = nextTimer e, fs_index = 0, fs_lines = lines,
                       fs_userId = uid, fs_startTime = now, fs_messageCount = 0\<rparr>"
    by (simp add: e1)
  ultimately show ?thesis
    using tmpl stop quiet round_seconds_nonneg[of "now' - now"] by auto
qed

text \<open>A firing of a timer removes loop states or leaves them as they are: no counter advances.\<close>

lemma tick_never_counts:
  "activeFuns (tick e h statsOk now) t = Some f \<Longrightarrow> activeFuns e t = Some f"
  by (auto simp: tick_def tick_failed_def stopFun_def Let_def
           split: option.splits prod.splits if_splits)



lemma murgi_flaky_eq:
  "murgi_flaky = \<lparr>heap = [0 \<mapsto> \<lparr>ft_type = ''murgi'', ft_index = 0, ft_interval = Some 0,
                                  ft_active = True, ft_userID = IdStr ''100''\<rparr>],
                   nextAddr = 1, funThreads = [''t1'' \<mapsto> 0],
                   intervals = [0 \<mapsto> \<lparr>lc_module = murgi, lc_thread = 0, lc_threadID = ''t1'',
                                        lc_funData = [''kuk'', ''kuru'', ''ku''], lc_iteration = 0\<rparr>],
                   timeouts = [1 \<mapsto> (0, ''t1'', ''murgi'')], nextHandle = 2,
                   net = \<lparr>up = (\<lambda>n. n \<noteq> 1), calls = [(FunStarting ''murgi'', ''t1'', True)]\<rparr>,
                   funActive = False\<rparr>"
  by (simp add: murgi_flaky_def fun_execute_def demo_fun_env_def demo_bot_def api_send_def
        second_call_fails_def murgi_def)

text \<open>
  Claim C9.  The claim says that a failed send in a tick ends the loop and is reported
  to the conversation.  In the murgi module, with the first tick's send failing, the loop
  ends (timer cleared, table entry removed) but nothing more is handed to the transport:
  the call log ends with the failed send.  FunEngine's tick, on the same failure, ends
  the loop and sends "Error sending fun message. Fun stopped.".
\<close>

theorem murgi_send_failure_unreported:
  "funThreads murgi_flaky ''t1'' = Some 0
   \<and> intervals murgi_flaky 0 \<noteq> None
   \<and> funThreads (fun_tick demo_fun_env 0 murgi_flaky) ''t1'' = None
   \<and> intervals (fun_tick demo_fun_env 0 murgi_flaky) 0 = None
   \<and> calls (net (fun_tick demo_fun_env 0 murgi_flaky))
        = [(FunStarting ''murgi'', ''t1'', True), (Decorated 1 ''kuk'', ''t1'', False)]
   \<and> calls (api (tick engine_flaky 0 True 1500))
        = [(Typing, ''t1'', True), (Line ''kuk'', ''t1'', False), (FunSendError, ''t1'', True)]
   \<and> activeFuns (tick engine_flaky 0 True 1500) ''t1'' = None
   \<and> timers (tick engine_flaky 0 True 1500) 0 = None"
proof -
  have m: "fun_tick demo_fun_env 0 murgi_flaky
           = murgi_flaky\<lparr>intervals := Map.empty, funThreads := Map.empty,
                net := \<lparr>up = (\<lambda>n. n \<noteq> 1),
                        calls = [(FunStarting ''murgi'', ''t1'', True), (Decorated 1 ''kuk'', ''t1'', False)]\<rparr>\<rparr>"
    by (simp add: murgi_flaky_eq fun_tick_def loop_failed_def clearInterval_def pick_def
          decorate_def api_send_def murgi_def)
  have e: "engine_flaky = \<lparr>activeFuns = [''t1'' \<mapsto> \<lparr>fs_type = ''murgi'', fs_interval = 0, fs_index = 0,
                                 fs_lines = Lines [''kuk'', ''kuru'', ''ku''], fs_userId = IdStr ''100'',
                                 fs_startTime = 1000, fs_messageCount = 0\<rparr>],
                            funTemplates = [''murgi'' \<mapsto> [''kuk'', ''kuru'', ''ku'']],
                            timers = [0 \<mapsto> \<lparr>tc_threadId = ''t1'', tc_funType = ''murgi'',
                                 tc_userId = IdStr ''100'', tc_lines = Lines [''kuk'', ''kuru'', ''ku''],
                                 currentIndex = 0\<rparr>],
                            nextTimer = 1, api = second_call_fails, recorded = []\<rparr>"
    by (simp add: engine_flaky_def startFun_def lookup_template_def template_length_def
          demo_engine_def)
  have t: "tick engine_flaky 0 True 1500
           = engine_flaky\<lparr>timers := Map.empty, activeFuns := Map.empty,
                api := \<lparr>up = (\<lambda>n. n \<noteq> 1),
                        calls = [(Typing, ''t1'', True), (Line ''kuk'', ''t1'', False), (FunSendError, ''t1'', True)]\<rparr>\<rparr>"
    by (simp add: e tick_def tick_failed_def stopFun_def template_length_def template_at_def
          api_send_def second_call_fails_def)
  show ?thesis
    by (simp add: m t) (simp add: murgi_flaky_eq)
qed

lemma murgi_running_eq:
  "murgi_running = \<lparr>heap = [0 \<mapsto> \<lparr>ft_type = ''murgi'', ft_index = 0, ft_interval = Some 0,
                                  ft_active = True, ft_userID = IdStr ''100''\<rparr>],
                   nextAddr = 1, funThreads = [''t1'' \<mapsto> 0],
                   intervals = [0 \<mapsto> \<lparr>lc_module = murgi, lc_thread = 0, lc_threadID = ''t1'',
                                        lc_funData = [''kuk'', ''kuru'', ''ku''], lc_iteration = 0\<rparr>],
                   timeouts = [1 \<mapsto> (0, ''t1'', ''murgi'')], nextHandle = 2,
                   net = \<lparr>up = (\<lambda>n. True), calls = [(FunStarting ''murgi'', ''t1'', True)]\<rparr>,
                   funActive = False\<rparr>"
  by (simp add: murgi_running_def fun_execute_def demo_fun_env_def demo_bot_def api_send_def
        always_up_def murgi_def)

lemma murgi_stopped_eq:
  "fun_stop murgi ''t1'' murgi_running = (True, murgi_running\<lparr>intervals := Map.empty, funThreads := Map.empty\<rparr>)"
  by (simp add: murgi_running_eq fun_stop_def clearInterval_def murgi_def)

text \<open>
  Claim C2.  The claim says that after a manual stop the auto-expiry callback sends
  nothing and leaves the fun-thread table alone.  The callback tests \<^verbatim>\<open>funThread.active\<close>,
  which no code sets to false: after \<^verbatim>\<open>stop\<close> has removed the murgi loop, the callback
  still sends the auto-stop notice; and when a cow loop has been started in the
  conversation in between, the callback removes the cow loop's table entry while the cow
  loop's timer stays set.
\<close>

theorem expiry_after_manual_stop_still_acts:
  "fst (fun_stop murgi ''t1'' murgi_running)
   \<and> funThreads murgi_stopped ''t1'' = None
   \<and> calls (net murgi_stopped) = [(FunStarting ''murgi'', ''t1'', True)]
   \<and> calls (net (fun_expire 1 murgi_stopped))
        = [(FunStarting ''murgi'', ''t1'', True), (AutoStopped ''murgi'', ''t1'', True)]
   \<and> funThreads cow_running ''t1'' = Some 1
   \<and> intervals cow_running 2 \<noteq> None
   \<and> funThreads (fun_expire 1 cow_running) ''t1'' = None
   \<and> intervals (fun_expire 1 cow_running) 2 \<noteq> None"
proof -
  have s: "murgi_stopped = murgi_running\<lparr>intervals := Map.empty, funThreads := Map.empty\<rparr>"
    by (simp add: murgi_stopped_def murgi_stopped_eq)
  have x: "calls (net (fun_expire 1 murgi_stopped))
        = [(FunStarting ''murgi'', ''t1'', True), (AutoStopped ''murgi'', ''t1'', True)]"
    by (simp add: s murgi_running_eq fun_expire_def clearInterval_def api_send_def)
  have c: "cow_running = \<lparr>heap = [0 \<mapsto> \<lparr>ft_type = ''murgi'', ft_index = 0, ft_interval = Some 0,
                                  ft_active = True, ft_userID = IdStr ''100''\<rparr>,
                                  1 \<mapsto> \<lparr>ft_type = ''cow'', ft_index = 0, ft_interval = Some 2,
                                  ft_active = True, ft_userID = IdStr ''200''\<rparr>],
                   nextAddr = 2, funThreads = [''t1'' \<mapsto> 1],
                   intervals = [2 \<mapsto> \<lparr>lc_module = cow, lc_thread = 1, lc_threadID = ''t1'',
                                        lc_funData = [''moo''], lc_iteration = 0\<rparr>],
                   timeouts = [1 \<mapsto> (0, ''t1'', ''murgi''), 3 \<mapsto> (1, ''t1'', ''cow'')], nextHandle = 4,
                   net = \<lparr>up = (\<lambda>n. True), calls = [(FunStarting ''murgi'', ''t1'', True),
                                                      (FunStarting ''cow'', ''t1'', True)]\<rparr>,
                   funActive = False\<rparr>"
    by (simp add: cow_running_def s murgi_running_eq fun_execute_def demo_fun_env_def api_send_def cow_def)
  have y: "funThreads (fun_expire 1 cow_running) ''t1'' = None
           \<and> intervals (fun_expire 1 cow_running) 2 \<noteq> None"
    by (simp add: c fun_expire_def clearInterval_def api_send_def)
  show ?thesis
    using x y by (simp add: murgi_stopped_eq) (simp add: s c murgi_running_eq)
qed

end
